theory Spec2Isabelle
  imports Complex_Main
begin

section \<open>Floating point values of a pandas Series\<close>

text \<open>
  A value of a price or derived series is a Python float. The model keeps the three
  kinds of value that the calculator distinguishes: a number, an infinity (with its
  sign, \<open>True\<close> for the positive one) and NaN, which pandas uses for a missing value.
  Numbers are exact reals: rounding, overflow and the sign of zero are not modelled, so
  the properties below are stated where the result does not depend on rounding.
  The operations follow IEEE 754 on these three kinds, as numpy applies them
  elementwise (a division by zero gives an infinity or NaN, never an exception).
\<close>

datatype pyfloat = Fin real | Inf bool | NaN

fun isnan :: "pyfloat \<Rightarrow> bool" where
  "isnan NaN = True"
| "isnan _ = False"

fun isinf :: "pyfloat \<Rightarrow> bool" where
  "isinf (Inf s) = True"
| "isinf _ = False"

fun fneg :: "pyfloat \<Rightarrow> pyfloat" where
  "fneg (Fin a) = Fin (- a)"
| "fneg (Inf s) = Inf (\<not> s)"
| "fneg NaN = NaN"

fun fadd :: "pyfloat \<Rightarrow> pyfloat \<Rightarrow> pyfloat" where
  "fadd (Fin a) (Fin b) = Fin (a + b)"
| "fadd (Fin a) (Inf t) = Inf t"
| "fadd (Inf s) (Fin b) = Inf s"
| "fadd (Inf s) (Inf t) = (if s = t then Inf s else NaN)"
| "fadd NaN y = NaN"
| "fadd x NaN = NaN"

definition fsub :: "pyfloat \<Rightarrow> pyfloat \<Rightarrow> pyfloat" where
  "fsub x y = fadd x (fneg y)"

fun fmul :: "pyfloat \<Rightarrow> pyfloat \<Rightarrow> pyfloat" where
  "fmul (Fin a) (Fin b) = Fin (a * b)"
| "fmul (Fin a) (Inf t) = (if a = 0 then NaN else Inf (t = (0 < a)))"
| "fmul (Inf s) (Fin b) = (if b = 0 then NaN else Inf (s = (0 < b)))"
| "fmul (Inf s) (Inf t) = Inf (s = t)"
| "fmul NaN y = NaN"
| "fmul x NaN = NaN"

fun fdiv :: "pyfloat \<Rightarrow> pyfloat \<Rightarrow> pyfloat" where
  "fdiv (Fin a) (Fin b) =
     (if b = 0 then (if a = 0 then NaN else Inf (0 < a)) else Fin (a / b))"
| "fdiv (Fin a) (Inf t) = Fin 0"
| "fdiv (Inf s) (Fin b) = Inf (s = (0 \<le> b))"
| "fdiv (Inf s) (Inf t) = NaN"
| "fdiv NaN y = NaN"
| "fdiv x NaN = NaN"

text \<open>Comparisons: every comparison with NaN is false, except \<open>!=\<close>.\<close>

fun flt :: "pyfloat \<Rightarrow> pyfloat \<Rightarrow> bool" where
  "flt (Fin a) (Fin b) = (a < b)"
| "flt (Fin a) (Inf t) = t"
| "flt (Inf s) (Fin b) = (\<not> s)"
| "flt (Inf s) (Inf t) = (if s then False else t)"
| "flt NaN y = False"
| "flt x NaN = False"

fun feq :: "pyfloat \<Rightarrow> pyfloat \<Rightarrow> bool" where
  "feq (Fin a) (Fin b) = (a = b)"
| "feq (Inf s) (Inf t) = (s = t)"
| "feq _ _ = False"

definition fgt :: "pyfloat \<Rightarrow> pyfloat \<Rightarrow> bool" where
  "fgt x y = flt y x"

definition fle :: "pyfloat \<Rightarrow> pyfloat \<Rightarrow> bool" where
  "fle x y = (if flt x y then True else feq x y)"

section \<open>Quadrants and colours (\<open>RRGCalculator.get_quadrant\<close>, \<open>get_color\<close>)\<close>

definition get_quadrant :: "pyfloat \<Rightarrow> pyfloat \<Rightarrow> string" where
  "get_quadrant rs_value momentum_value =
     (if fgt rs_value (Fin 100) \<and> fgt momentum_value (Fin 100) then ''Leading''
      else if fgt rs_value (Fin 100) \<and> fle momentum_value (Fin 100) then ''Weakening''
      else if fle rs_value (Fin 100) \<and> fgt momentum_value (Fin 100) then ''Improving''
      else ''Lagging'')"

definition get_color :: "pyfloat \<Rightarrow> pyfloat \<Rightarrow> string" where
  "get_color rs_value momentum_value =
     (if fgt rs_value (Fin 100)
      then (if fgt momentum_value (Fin 100) then ''#008217'' else ''#918000'')
      else (if fgt momentum_value (Fin 100) then ''#00749D'' else ''#E0002B''))"

section \<open>Series\<close>

text \<open>
  A pandas Series is a sequence of rows, each a label of the index (here a date, any
  linearly ordered type, so without the missing date \<open>NaT\<close>) with a value. Labels may
  repeat and need not be sorted.
\<close>

type_synonym 'd series = "('d \<times> pyfloat) list"

definition index :: "'d series \<Rightarrow> 'd list" where
  "index ser = map fst ser"

definition series_values :: "'d series \<Rightarrow> pyfloat list" where
  "series_values ser = map snd ser"

subsection \<open>The normalizer (\<open>RRGCalculator.process_series\<close>)\<close>

text \<open>
  \<open>Index.duplicated()\<close> with its default \<open>keep='first'\<close> marks every label that
  occurred at an earlier position; \<open>ser.loc[~mask]\<close> keeps the rows whose mark is false.
\<close>

fun duplicated_from :: "'d list \<Rightarrow> 'd list \<Rightarrow> bool list" where
  "duplicated_from seen [] = []"
| "duplicated_from seen (d # ds) = (d \<in> set seen) # duplicated_from (d # seen) ds"

definition duplicated :: "'d list \<Rightarrow> bool list" where
  "duplicated ds = duplicated_from [] ds"

definition loc_not :: "'d series \<Rightarrow> bool list \<Rightarrow> 'd series" where
  "loc_not ser marks = map fst (filter (\<lambda>(row, dup). \<not> dup) (zip ser marks))"

definition has_duplicates :: "'d list \<Rightarrow> bool" where
  "has_duplicates ds = (\<not> distinct ds)"

definition is_monotonic_increasing :: "('d::linorder) list \<Rightarrow> bool" where
  "is_monotonic_increasing ds = sorted ds"

text \<open>
  \<open>sort_index(ascending=True)\<close> orders the rows by label. It is only reached with
  labels that are pairwise different, where the order of the result does not depend on
  the sorting algorithm.
\<close>

definition sort_index :: "('d::linorder) series \<Rightarrow> 'd series" where
  "sort_index ser = sort_key fst ser"

definition process_series :: "('d::linorder) series \<Rightarrow> 'd series" where
  "process_series ser =
     (let ser1 = (if has_duplicates (index ser) then loc_not ser (duplicated (index ser))
                  else ser)
      in if \<not> is_monotonic_increasing (index ser1) then sort_index ser1 else ser1)"

section \<open>The pandas operations used by the calculator\<close>

text \<open>
  The calculator calls pandas for its arithmetic. The operations are modelled here by
  what pandas computes, on the values of a series in index order.
\<close>

datatype failure =
  ValueError  \<comment> \<open>raised by \<open>ewm\<close> for a span below 1\<close>
  | KeyError  \<comment> \<open>raised by \<open>loc\<close> for a label that is not in the index\<close>
  | Unaligned \<comment> \<open>no exception: the operands of a division carry different indexes\<close>

subsection \<open>Infinite values in a window operation\<close>

text \<open>
  Both window operations, \<open>ewm\<close> and \<open>rolling\<close>, first replace every infinite value of
  their input by NaN (\<open>_prep_values\<close>), so an infinity counts as a missing value.
\<close>

definition prep_values :: "pyfloat list \<Rightarrow> pyfloat list" where
  "prep_values vals = map (\<lambda>v. if isinf v then NaN else v) vals"

subsection \<open>\<open>ewm(span=m, adjust=False).mean()\<close>\<close>

text \<open>
  pandas derives \<open>com = (span - 1) / 2\<close> and \<open>alpha = 1 / (1 + com)\<close>, and rejects a
  span below 1. With \<open>adjust=False\<close>, \<open>ignore_na=False\<close> and \<open>min_periods=0\<close> (taken as
  1) the mean is computed by one pass over the prepared values that carries the running mean \<open>weighted\<close>, the
  weight \<open>old_wt\<close> of that mean and the number \<open>nobs\<close> of values seen that are not NaN:
  \<^item> while no value has been seen, a value that is not NaN starts the mean;
  \<^item> otherwise \<open>old_wt\<close> is multiplied by \<open>1 - alpha\<close>, and a value \<open>cur\<close> that is not NaN
    and differs from the mean replaces the mean by
    \<open>(old_wt * weighted + alpha * cur) / (old_wt + alpha)\<close> and resets \<open>old_wt\<close> to 1;
  \<^item> the output at each position is the running mean.
\<close>

fun ewm_loop :: "real \<Rightarrow> pyfloat \<Rightarrow> real \<Rightarrow> nat \<Rightarrow> pyfloat list \<Rightarrow> pyfloat list" where
  "ewm_loop alpha weighted old_wt nobs [] = []"
| "ewm_loop alpha weighted old_wt nobs (cur # vals) =
     (let is_observation = \<not> isnan cur;
          nobs1 = (if is_observation then nobs + 1 else nobs);
          old_wt1 = (if \<not> isnan weighted then old_wt * (1 - alpha) else old_wt);
          weighted1 =
            (if \<not> isnan weighted then
               (if is_observation then
                  (if \<not> feq weighted cur
                   then fdiv (fadd (fmul (Fin old_wt1) weighted) (fmul (Fin alpha) cur))
                          (Fin (old_wt1 + alpha))
                   else weighted)
                else weighted)
             else if is_observation then cur else weighted);
          old_wt2 = (if \<not> isnan weighted \<and> is_observation then 1 else old_wt1)
      in (if 1 \<le> nobs1 then weighted1 else NaN) # ewm_loop alpha weighted1 old_wt2 nobs1 vals)"

fun ewm :: "real \<Rightarrow> pyfloat list \<Rightarrow> pyfloat list" where
  "ewm alpha [] = []"
| "ewm alpha (v # vals) =
     (let nobs = (if isnan v then 0 else 1)
      in (if 1 \<le> nobs then v else NaN) # ewm_loop alpha v 1 nobs vals)"

definition span_alpha :: "int \<Rightarrow> real" where
  "span_alpha m = 1 / (1 + (real_of_int m - 1) / 2)"

definition ewm_mean :: "int \<Rightarrow> pyfloat list \<Rightarrow> failure + pyfloat list" where
  "ewm_mean m vals =
     (if m < 1 then Inl ValueError else Inr (ewm (span_alpha m) (prep_values vals)))"

subsection \<open>\<open>rolling(window=m).mean()\<close>\<close>

text \<open>
  The window at position \<open>i\<close> holds the prepared values at the positions \<open>i - m + 1\<close> to
  \<open>i\<close> that exist. The mean is the sum of the values that are not NaN over their number \<open>nobs\<close>, when
  \<open>nobs\<close> reaches \<open>min_periods\<close>, which defaults to the window size; otherwise NaN.
\<close>

definition fsum :: "pyfloat list \<Rightarrow> pyfloat" where
  "fsum vals = foldl fadd (Fin 0) vals"

definition roll_window :: "nat \<Rightarrow> pyfloat list \<Rightarrow> nat \<Rightarrow> pyfloat list" where
  "roll_window w vals i =
     (let s = (if w \<le> i + 1 then i + 1 - w else 0) in take (i + 1 - s) (drop s vals))"

definition rolling_mean :: "nat \<Rightarrow> pyfloat list \<Rightarrow> pyfloat list" where
  "rolling_mean w vals =
     map (\<lambda>i. let obs = filter (\<lambda>v. \<not> isnan v) (roll_window w (prep_values vals) i);
                  nobs = length obs
              in if w \<le> nobs \<and> 0 < nobs then fdiv (fsum obs) (Fin (real nobs)) else NaN)
       [0..<length vals]"

subsection \<open>\<open>shift(k)\<close>, \<open>replace(0, nan)\<close> and elementwise arithmetic\<close>

definition shift :: "int \<Rightarrow> pyfloat list \<Rightarrow> pyfloat list" where
  "shift k vals =
     (let n = length vals in
      if 0 \<le> k then replicate (min (nat k) n) NaN @ take (n - nat k) vals
      else drop (nat (- k)) vals @ replicate (min (nat (- k)) n) NaN)"

definition replace_zero_nan :: "pyfloat list \<Rightarrow> pyfloat list" where
  "replace_zero_nan vals = map (\<lambda>v. if feq v (Fin 0) then NaN else v) vals"

text \<open>
  A binary operation on two series with equal indexes works position by position and
  keeps the index. For different indexes pandas first reindexes both operands to the
  union of their labels; that path is outside this model and is reported as
  \<open>Unaligned\<close>. The operands that the calculator builds itself always share the index
  of its argument.
\<close>

definition series_truediv :: "'d series \<Rightarrow> 'd series \<Rightarrow> failure + 'd series" where
  "series_truediv a b =
     (if index a = index b then Inr (zip (index a) (map2 fdiv (series_values a) (series_values b)))
      else Inl Unaligned)"

section \<open>The transform engine (\<open>RRGCalculator\<close>)\<close>

record calculator =
  window :: int
  period :: int
  ema_span :: int
  roc_shift :: int
  ema_roc_span :: int

text \<open>The steps of \<open>calculate_rs\<close> on the values of the raw ratio \<open>rs\<close>.\<close>

definition rs_ratio_values :: "int \<Rightarrow> pyfloat list \<Rightarrow> failure + pyfloat list" where
  "rs_ratio_values m rs =
     (case ewm_mean m rs of
        Inl e \<Rightarrow> Inl e
      | Inr ema_rs \<Rightarrow>
          (let ema_rs_mean = rolling_mean (nat m) ema_rs
           in Inr (map2 fdiv (map (fmul (Fin 100)) ema_rs) (replace_zero_nan ema_rs_mean))))"

definition calculate_rs :: "calculator \<Rightarrow> 'd series \<Rightarrow> 'd series \<Rightarrow> failure + 'd series" where
  "calculate_rs self stock_df benchmark_df =
     (case series_truediv stock_df benchmark_df of
        Inl e \<Rightarrow> Inl e
      | Inr rs \<Rightarrow>
          (case rs_ratio_values (ema_roc_span self) (series_values rs) of
             Inl e \<Rightarrow> Inl e
           | Inr rs_ratio \<Rightarrow> Inr (zip (index rs) rs_ratio)))"

text \<open>The steps of \<open>calculate_momentum\<close> on the values of the ratio series.\<close>

definition roc_values :: "int \<Rightarrow> pyfloat list \<Rightarrow> pyfloat list" where
  "roc_values k rs_ratio =
     (let rs_ratio_shifted = shift k rs_ratio
      in map2 fdiv (map2 fsub rs_ratio rs_ratio_shifted) (replace_zero_nan rs_ratio_shifted))"

definition momentum_values :: "int \<Rightarrow> int \<Rightarrow> pyfloat list \<Rightarrow> failure + pyfloat list" where
  "momentum_values k m rs_ratio =
     (case ewm_mean m (roc_values k rs_ratio) of
        Inl e \<Rightarrow> Inl e
      | Inr ema_roc \<Rightarrow> Inr (map (\<lambda>v. fadd (Fin 100) (fmul (Fin 100) v)) ema_roc))"

definition calculate_momentum :: "calculator \<Rightarrow> 'd series \<Rightarrow> failure + 'd series" where
  "calculate_momentum self rs_ratio =
     (case momentum_values (roc_shift self) (ema_roc_span self) (series_values rs_ratio) of
        Inl e \<Rightarrow> Inl e
      | Inr rs_momentum \<Rightarrow> Inr (zip (index rs_ratio) rs_momentum))"

section \<open>The orchestration step (\<open>generate_chart\<close> in \<open>app.py\<close>)\<close>

text \<open>
  The settings live in the Streamlit session state, a dictionary read with
  \<open>st.session_state.get(key, default)\<close>. The calculator is built from it.
\<close>

type_synonym session_state = "string \<rightharpoonup> int"

definition session_get :: "session_state \<Rightarrow> string \<Rightarrow> int \<Rightarrow> int" where
  "session_get st key dflt = (case st key of None \<Rightarrow> dflt | Some v \<Rightarrow> v)"

definition make_calculator :: "session_state \<Rightarrow> calculator" where
  "make_calculator st =
     \<lparr>window = session_get st ''window'' 14,
      period = session_get st ''roc_period'' 20,
      ema_span = 14,
      roc_shift = session_get st ''roc_shift'' 10,
      ema_roc_span = session_get st ''ema_roc_span'' 14\<rparr>"

text \<open>
  \<open>Index.intersection\<close> of two strictly increasing indexes keeps the labels of the
  first that occur in the second, in order. \<open>ser.loc[labels]\<close> returns, label by label,
  the rows that carry the label, and raises \<open>KeyError\<close> for a label without a row.
\<close>

definition intersection :: "'d list \<Rightarrow> 'd list \<Rightarrow> 'd list" where
  "intersection a b = filter (\<lambda>d. d \<in> set b) a"

fun loc :: "'d series \<Rightarrow> 'd list \<Rightarrow> failure + 'd series" where
  "loc ser [] = Inr []"
| "loc ser (d # ds) =
     (case filter (\<lambda>row. fst row = d) ser of
        [] \<Rightarrow> Inl KeyError
      | r # rs \<Rightarrow> (case loc ser ds of Inl e \<Rightarrow> Inl e | Inr rest \<Rightarrow> Inr ((r # rs) @ rest)))"

text \<open>
  What one pass of the loop over the selected instruments does with the closing prices
  of an instrument whose data was fetched. The chart bookkeeping that follows a stored
  result (the list of available dates) is not part of the model.
\<close>

datatype 'd item_outcome =
  Insufficient_history  \<comment> \<open>\<open>continue\<close> at the length check, before the engine is called\<close>
  | Escaped failure  \<comment> \<open>an exception raised outside the \<open>try\<close> block\<close>
  | Calculation_failed  \<comment> \<open>\<open>except Exception: continue\<close>\<close>
  | Outside_model  \<comment> \<open>the engine was handed series with different indexes\<close>
  | Nothing_stored  \<comment> \<open>the engine returned an empty series\<close>
  | Stored "'d series" "'d series"  \<comment> \<open>\<open>items_data[symbol]\<close> receives both series\<close>

definition try_calculate :: "calculator \<Rightarrow> 'd series \<Rightarrow> 'd series \<Rightarrow> 'd item_outcome" where
  "try_calculate calc item_aligned benchmark_aligned =
     (case calculate_rs calc item_aligned benchmark_aligned of
        Inl Unaligned \<Rightarrow> Outside_model
      | Inl e \<Rightarrow> Calculation_failed
      | Inr rs_series \<Rightarrow>
          (case calculate_momentum calc rs_series of
             Inl e \<Rightarrow> Calculation_failed
           | Inr momentum_series \<Rightarrow>
               if 0 < length rs_series \<and> 0 < length momentum_series
               then Stored rs_series momentum_series else Nothing_stored))"

definition generate_chart_item ::
  "session_state \<Rightarrow> ('d::linorder) series \<Rightarrow> 'd series \<Rightarrow> 'd item_outcome" where
  "generate_chart_item st item_close benchmark_closes =
     (let calc = make_calculator st;
          item_closes = process_series item_close;
          benchmark_processed = process_series benchmark_closes;
          common_dates = intersection (index item_closes) (index benchmark_processed);
          window = session_get st ''window'' 14;
          roc_period = session_get st ''roc_period'' 20
      in if int (length common_dates) < window + roc_period then Insufficient_history
         else
           (case loc item_closes common_dates of
              Inl e \<Rightarrow> Escaped e
            | Inr item_aligned \<Rightarrow>
                (case loc benchmark_processed common_dates of
                   Inl e \<Rightarrow> Escaped e
                 | Inr benchmark_aligned \<Rightarrow>
                     try_calculate calc item_aligned benchmark_aligned)))"

section \<open>The moving average as the specification words it\<close>

text \<open>
  The specification defines the exponential moving average of a series of numbers by
  its recurrence: the first output is the first input, and each further output is
  \<open>alpha * input[t] + (1 - alpha) * output[t - 1]\<close>. \<open>spec_ema_from\<close> continues the
  recurrence from the previous output.
\<close>

fun spec_ema_from :: "real \<Rightarrow> real \<Rightarrow> real list \<Rightarrow> real list" where
  "spec_ema_from alpha prev [] = []"
| "spec_ema_from alpha prev (x # xs) =
     (alpha * x + (1 - alpha) * prev) # spec_ema_from alpha (alpha * x + (1 - alpha) * prev) xs"

fun spec_ema :: "real \<Rightarrow> real list \<Rightarrow> real list" where
  "spec_ema alpha [] = []"
| "spec_ema alpha (x # xs) = x # spec_ema_from alpha x xs"

section \<open>Properties of the quadrant classification\<close>

lemma get_quadrant_Fin:
  "get_quadrant (Fin r) (Fin m) =
     (if 100 < r then (if 100 < m then ''Leading'' else ''Weakening'')
      else (if 100 < m then ''Improving'' else ''Lagging''))"
  by (auto simp: get_quadrant_def fgt_def fle_def)

lemma get_color_Fin:
  "get_color (Fin r) (Fin m) =
     (if 100 < r then (if 100 < m then ''#008217'' else ''#918000'')
      else (if 100 < m then ''#00749D'' else ''#E0002B''))"
  by (simp add: get_color_def fgt_def)

text \<open>
  C1. For all real numbers \<open>r\<close> (ratio) and \<open>m\<close> (momentum) the quadrant is Leading
  exactly when \<open>r > 100\<close> and \<open>m > 100\<close>, Weakening exactly when \<open>r > 100\<close> and
  \<open>m \<le> 100\<close>, Improving exactly when \<open>r \<le> 100\<close> and \<open>m > 100\<close>, and Lagging exactly
  in the remaining case \<open>r \<le> 100\<close> and \<open>m \<le> 100\<close>. The four literal points of the
  specification fall in Lagging, Leading, Weakening and Improving.
\<close>

theorem get_quadrant_boundaries:
  "(get_quadrant (Fin r) (Fin m) = ''Leading'') = (100 < r \<and> 100 < m)
   \<and> (get_quadrant (Fin r) (Fin m) = ''Weakening'') = (100 < r \<and> m \<le> 100)
   \<and> (get_quadrant (Fin r) (Fin m) = ''Improving'') = (r \<le> 100 \<and> 100 < m)
   \<and> (get_quadrant (Fin r) (Fin m) = ''Lagging'') = (r \<le> 100 \<and> m \<le> 100)
   \<and> get_quadrant (Fin 100) (Fin 100) = ''Lagging''
   \<and> get_quadrant (Fin 100.0001) (Fin 100.0001) = ''Leading''
   \<and> get_quadrant (Fin 100.0001) (Fin 99.9999) = ''Weakening''
   \<and> get_quadrant (Fin 99.9999) (Fin 100.0001) = ''Improving''"
  by (simp add: get_quadrant_Fin)

text \<open>
  C10. For all real numbers \<open>r\<close> and \<open>m\<close> the colour agrees with the quadrant:
  \<open>#008217\<close> exactly for Leading, \<open>#918000\<close> exactly for Weakening, \<open>#00749D\<close>
  exactly for Improving and \<open>#E0002B\<close> exactly for Lagging.
\<close>

theorem get_color_agrees_with_quadrant:
  "(get_color (Fin r) (Fin m) = ''#008217'') = (get_quadrant (Fin r) (Fin m) = ''Leading'')
   \<and> (get_color (Fin r) (Fin m) = ''#918000'') = (get_quadrant (Fin r) (Fin m) = ''Weakening'')
   \<and> (get_color (Fin r) (Fin m) = ''#00749D'') = (get_quadrant (Fin r) (Fin m) = ''Improving'')
   \<and> (get_color (Fin r) (Fin m) = ''#E0002B'') = (get_quadrant (Fin r) (Fin m) = ''Lagging'')"
  by (simp add: get_quadrant_Fin get_color_Fin)

section \<open>Properties of the normalizer\<close>

text \<open>
  Keeping the unmarked rows, with the labels in \<open>seen\<close> counted as met before: the
  recursion that \<open>loc_not\<close> and \<open>duplicated_from\<close> follow together.
\<close>

lemma keep_first_Cons:
  "loc_not (r # ser) (duplicated_from seen (index (r # ser))) =
     (if fst r \<in> set seen then loc_not ser (duplicated_from (fst r # seen) (index ser))
      else r # loc_not ser (duplicated_from (fst r # seen) (index ser)))"
  by (simp add: loc_not_def index_def)

lemma keep_first_Nil: "loc_not [] (duplicated_from seen (index [])) = []"
  by (simp add: loc_not_def index_def)

lemma index_Cons: "index (r # ser) = fst r # index ser"
  by (simp add: index_def)

lemma keep_first_set:
  "set (index (loc_not ser (duplicated_from seen (index ser)))) = set (index ser) - set seen"
proof (induction ser arbitrary: seen)
  case Nil
  show ?case by (simp add: loc_not_def index_def)
next
  case (Cons r ser)
  show ?case
    unfolding keep_first_Cons using Cons.IH [of "fst r # seen"]
    by (auto simp: index_Cons)
qed

lemma keep_first_distinct:
  "distinct (index (loc_not ser (duplicated_from seen (index ser))))"
proof (induction ser arbitrary: seen)
  case Nil
  show ?case by (simp add: loc_not_def index_def)
next
  case (Cons r ser)
  show ?case
    unfolding keep_first_Cons using Cons.IH [of "fst r # seen"] keep_first_set [of ser "fst r # seen"]
    by (auto simp: index_Cons)
qed

lemma keep_first_map_of:
  "map_of (loc_not ser (duplicated_from seen (index ser))) d =
     (if d \<in> set seen then None else map_of ser d)"
proof (induction ser arbitrary: seen)
  case Nil
  show ?case by (simp add: loc_not_def index_def)
next
  case (Cons r ser)
  show ?case
    unfolding keep_first_Cons using Cons.IH [of "fst r # seen"]
    by (cases r) auto
qed

lemma keep_first_id:
  "distinct (index ser) \<Longrightarrow> set (index ser) \<inter> set seen = {} \<Longrightarrow>
   loc_not ser (duplicated_from seen (index ser)) = ser"
proof (induction ser arbitrary: seen)
  case Nil
  show ?case by (simp add: loc_not_def index_def)
next
  case (Cons r ser)
  then show ?case
    unfolding keep_first_Cons by (auto simp: index_Cons)
qed


lemma distinct_index_sort_index:
  "distinct (index (sort_index ser)) = distinct (index ser)"
  by (simp add: index_def sort_index_def distinct_map)

lemma dedup_step:
  fixes ser :: "('d::linorder) series"
  defines "ser1 \<equiv> (if has_duplicates (index ser) then loc_not ser (duplicated (index ser)) else ser)"
  shows "distinct (index ser1)" and "map_of ser1 = map_of ser"
proof -
  show "distinct (index ser1)"
    using keep_first_distinct [of ser "[]"]
    by (simp add: ser1_def has_duplicates_def duplicated_def)
  show "map_of ser1 = map_of ser"
    using keep_first_map_of [of ser "[]"]
    by (auto simp: ser1_def has_duplicates_def duplicated_def)
qed

lemma sort_step:
  fixes ser1 :: "('d::linorder) series"
  assumes "distinct (index ser1)"
  defines "r \<equiv> (if \<not> is_monotonic_increasing (index ser1) then sort_index ser1 else ser1)"
  shows "sorted_wrt (<) (index r)" and "map_of r = map_of ser1"
proof -
  have d: "distinct (index r)"
    using assms(1) by (simp add: r_def distinct_index_sort_index)
  have s: "sorted (index r)"
    by (simp add: r_def is_monotonic_increasing_def index_def sort_index_def)
  show "sorted_wrt (<) (index r)"
    using d s by (simp add: strict_sorted_iff)
  have "set r = set ser1"
    by (simp add: r_def sort_index_def)
  then show "map_of r = map_of ser1"
    using d assms(1) map_of_inject_set [of r ser1] by (simp add: index_def)
qed

lemma process_series_sorted:
  "sorted_wrt (<) (index (process_series ser))"
  using sort_step(1) [OF dedup_step(1), of ser] by (simp add: process_series_def Let_def)

lemma process_series_map_of:
  "map_of (process_series ser) = map_of ser"
  using sort_step(2) [OF dedup_step(1), of ser] dedup_step(2) [of ser]
  by (simp add: process_series_def Let_def)

lemma process_series_normal:
  "sorted_wrt (<) (index ser) \<Longrightarrow> process_series ser = ser"
  by (simp add: process_series_def Let_def has_duplicates_def is_monotonic_increasing_def
      strict_sorted_iff)

text \<open>
  C5. For every raw series the normalizer returns a series whose index is strictly
  increasing, hence without duplicate dates; looking a date up in the result gives the
  value of its first occurrence in the input (and nothing for a date the input lacks);
  the empty series is returned as the empty series. The model has no failing branch.
\<close>

theorem process_series_canonical:
  "sorted_wrt (<) (index (process_series ser))
   \<and> distinct (index (process_series ser))
   \<and> map_of (process_series ser) = map_of ser
   \<and> process_series ([] :: ('d::linorder) series) = []"
  using process_series_sorted [of ser] process_series_map_of [of ser]
  by (simp add: strict_sorted_iff process_series_normal index_def)

text \<open>
  C6. The normalizer is idempotent: a series whose index is strictly increasing is
  returned as it is, and normalizing twice equals normalizing once.
\<close>

theorem process_series_idempotent:
  "(sorted_wrt (<) (index ser) \<longrightarrow> process_series ser = ser)
   \<and> process_series (process_series ser) = process_series ser"
  using process_series_sorted [of ser] by (simp add: process_series_normal)

theorem process_series_idempotent_witness:
  "sorted_wrt (<) (index [(1::nat, Fin 5), (2, Fin 7)])
   \<and> process_series [(1::nat, Fin 5), (2, Fin 7)] = [(1, Fin 5), (2, Fin 7)]
   \<and> process_series (process_series [(2::nat, Fin 7), (1, Fin 5), (2, Fin 9)])
       = process_series [(2::nat, Fin 7), (1, Fin 5), (2, Fin 9)]
   \<and> process_series [(2::nat, Fin 7), (1, Fin 5), (2, Fin 9)] = [(1, Fin 5), (2, Fin 7)]"
  using process_series_idempotent [of "[(1::nat, Fin 5), (2, Fin 7)]"]
    process_series_idempotent [of "[(2::nat, Fin 7), (1, Fin 5), (2, Fin 9)]"]
  by (simp add: index_def process_series_def has_duplicates_def duplicated_def loc_not_def
      is_monotonic_increasing_def sort_index_def)

section \<open>Properties of the pandas operations\<close>

subsection \<open>Arithmetic with NaN\<close>

lemma fdiv_NaN_right [simp]: "fdiv x NaN = NaN"
  by (cases x) simp_all

lemma fsub_NaN_right [simp]: "fsub x NaN = NaN"
  by (cases x) (simp_all add: fsub_def)

lemma fmul_NaN_right [simp]: "fmul x NaN = NaN"
  by (cases x) simp_all

lemma fadd_NaN_right [simp]: "fadd x NaN = NaN"
  by (cases x) simp_all

lemma feq_NaN_left [simp]: "feq NaN y = False"
  by (cases y) simp_all

lemma isnan_iff: "isnan x = (x = NaN)"
  by (cases x) simp_all

lemma feq_zero_iff: "feq x (Fin 0) = (x = Fin 0)"
  by (cases x) simp_all

lemma length_prep_values [simp]: "length (prep_values vals) = length vals"
  by (simp add: prep_values_def)

lemma prep_values_nth:
  "t < length vals \<Longrightarrow> prep_values vals ! t = (if isinf (vals ! t) then NaN else vals ! t)"
  by (simp add: prep_values_def)

lemma prep_values_replicate_Fin [simp]: "prep_values (replicate n (Fin c)) = replicate n (Fin c)"
  by (simp add: prep_values_def)

lemma prep_values_NaN_numbers [simp]:
  "prep_values (replicate a NaN @ map Fin xs) = replicate a NaN @ map Fin xs"
  by (simp add: prep_values_def)

subsection \<open>The exponentially weighted mean\<close>

text \<open>
  Leading NaN values are passed through and the mean starts at the first value that is
  not NaN; a constant stays constant; the output at a position depends on the input up
  to that position only; at a NaN the output repeats the previous output.
\<close>

lemma length_ewm_loop [simp]: "length (ewm_loop alpha w ow n vals) = length vals"
  by (induction vals arbitrary: w ow n) (simp_all add: Let_def)

lemma length_ewm [simp]: "length (ewm alpha vals) = length vals"
  by (cases vals) (simp_all add: Let_def)

lemma ewm_loop_fresh: "ewm_loop alpha NaN 1 0 vals = ewm alpha vals"
  by (cases vals) (auto simp: Let_def isnan_iff)

lemma ewm_leading_NaN: "ewm alpha (replicate a NaN @ vals) = replicate a NaN @ ewm alpha vals"
  by (induction a) (simp_all add: ewm_loop_fresh)

lemma ewm_loop_constant:
  "1 \<le> n \<Longrightarrow> ewm_loop alpha (Fin c) 1 n (replicate b (Fin c)) = replicate b (Fin c)"
  by (induction b arbitrary: n) (simp_all add: Let_def)

lemma ewm_constant: "ewm alpha (replicate b (Fin c)) = replicate b (Fin c)"
  by (cases b) (simp_all add: ewm_loop_constant)

lemma ewm_loop_prefix:
  "take (length xs) (ewm_loop alpha w ow n (xs @ ys)) = ewm_loop alpha w ow n xs"
  by (induction xs arbitrary: w ow n) (simp_all add: Let_def)

lemma ewm_prefix: "take (length xs) (ewm alpha (xs @ ys)) = ewm alpha xs"
  by (cases xs) (simp_all add: ewm_loop_prefix)

lemma ewm_loop_carry:
  assumes "t < length vals" and "isnan (vals ! t)" and "0 < n \<or> isnan w"
  shows "ewm_loop alpha w ow n vals ! t =
           (if t = 0 then w else ewm_loop alpha w ow n vals ! (t - 1))"
  using assms
proof (induction vals arbitrary: w ow n t)
  case Nil
  then show ?case by simp
next
  case (Cons cur vals)
  show ?case
  proof (cases t)
    case 0
    with Cons.prems show ?thesis by (auto simp: Let_def isnan_iff)
  next
    case (Suc t')
    define n1 where "n1 = (if \<not> isnan cur then n + 1 else n)"
    define ow1 where "ow1 = (if \<not> isnan w then ow * (1 - alpha) else ow)"
    define w1 where "w1 =
            (if \<not> isnan w then
               (if \<not> isnan cur then
                  (if \<not> feq w cur
                   then fdiv (fadd (fmul (Fin ow1) w) (fmul (Fin alpha) cur))
                          (Fin (ow1 + alpha))
                   else w)
                else w)
             else if \<not> isnan cur then cur else w)"
    define ow2 where "ow2 = (if \<not> isnan w \<and> \<not> isnan cur then 1 else ow1)"
    have step: "ewm_loop alpha w ow n (cur # vals) =
        (if 1 \<le> n1 then w1 else NaN) # ewm_loop alpha w1 ow2 n1 vals"
      by (simp add: Let_def n1_def ow1_def w1_def ow2_def)
    have inv: "0 < n1 \<or> isnan w1"
      using Cons.prems(3) by (auto simp: n1_def w1_def split: if_splits)
    have head: "(if 1 \<le> n1 then w1 else NaN) = w1"
      using inv by (auto simp: isnan_iff)
    have ih: "ewm_loop alpha w1 ow2 n1 vals ! t' =
           (if t' = 0 then w1 else ewm_loop alpha w1 ow2 n1 vals ! (t' - 1))"
      using Cons.IH [of t' n1 w1 ow2] Cons.prems Suc inv by simp
    show ?thesis
      unfolding step head using Suc ih by (cases t') simp_all
  qed
qed

lemma ewm_carry:
  assumes "t < length vals" and "isnan (vals ! t)"
  shows "ewm alpha vals ! t = (if t = 0 then NaN else ewm alpha vals ! (t - 1))"
proof (cases vals)
  case Nil
  with assms show ?thesis by simp
next
  case (Cons v rest)
  show ?thesis
  proof (cases t)
    case 0
    with assms Cons show ?thesis by (cases v) (simp_all add: Let_def)
  next
    case (Suc t')
    have "ewm_loop alpha v 1 (if isnan v then 0 else 1) rest ! t' =
           (if t' = 0 then v else ewm_loop alpha v 1 (if isnan v then 0 else 1) rest ! (t' - 1))"
      using ewm_loop_carry [of t' rest "if isnan v then 0 else 1" v alpha 1] assms Cons Suc
      by (auto split: if_splits)
    then show ?thesis
      using Cons Suc by (cases t'; cases v) (simp_all add: Let_def)
  qed
qed

lemma ewm_loop_spec:
  "1 \<le> n \<Longrightarrow> ewm_loop alpha (Fin w) 1 n (map Fin xs) = map Fin (spec_ema_from alpha w xs)"
proof (induction xs arbitrary: w n)
  case Nil
  show ?case by simp
next
  case (Cons x xs)
  have same: "alpha * x + (1 - alpha) * x = x"
    by (simp add: algebra_simps)
  have comm: "(1 - alpha) * w + alpha * x = alpha * x + (1 - alpha) * w"
    by simp
  show ?case
    using Cons.IH [of "n + 1"] Cons.prems by (auto simp: Let_def same comm)
qed

lemma ewm_spec: "ewm alpha (map Fin xs) = map Fin (spec_ema alpha xs)"
  by (cases xs) (simp_all add: ewm_loop_spec)

lemma span_alpha_eq: "1 \<le> m \<Longrightarrow> span_alpha m = 2 / (real_of_int m + 1)"
  by (simp add: span_alpha_def field_simps)

lemma spec_ema_from_nth:
  "t < length xs \<Longrightarrow>
   spec_ema_from alpha prev xs ! t =
     alpha * xs ! t + (1 - alpha) * (if t = 0 then prev else spec_ema_from alpha prev xs ! (t - 1))"
proof (induction xs arbitrary: prev t)
  case Nil
  then show ?case by simp
next
  case (Cons x xs)
  show ?case
  proof (cases t)
    case 0
    then show ?thesis by simp
  next
    case (Suc t')
    then show ?thesis
      using Cons.IH [of t' "alpha * x + (1 - alpha) * prev"] Cons.prems
      by (cases t') simp_all
  qed
qed

lemma length_spec_ema_from [simp]: "length (spec_ema_from alpha prev xs) = length xs"
  by (induction xs arbitrary: prev) simp_all

lemma length_spec_ema [simp]: "length (spec_ema alpha xs) = length xs"
  by (cases xs) simp_all

lemma spec_ema_nth:
  "0 < t \<Longrightarrow> t < length xs \<Longrightarrow>
   spec_ema alpha xs ! t = alpha * xs ! t + (1 - alpha) * spec_ema alpha xs ! (t - 1)"
proof (cases xs)
  case Nil
  assume "t < length xs"
  with Nil show ?thesis by simp
next
  case (Cons x rest)
  assume t: "0 < t" "t < length xs"
  then obtain t' where t': "t = Suc t'" by (cases t) auto
  show ?thesis
    using spec_ema_from_nth [of t' rest alpha x] t Cons t' by (cases t') simp_all
qed

lemma ewm_all_NaN:
  assumes "t < length vals" and "\<forall>j\<le>t. isnan (vals ! j)"
  shows "ewm alpha vals ! t = NaN"
  using assms
proof (induction t)
  case 0
  then show ?case using ewm_carry [of 0 vals alpha] by simp
next
  case (Suc t)
  then show ?case using ewm_carry [of "Suc t" vals alpha] by simp
qed

lemma ewm_take: "n \<le> length xs \<Longrightarrow> take n (ewm alpha xs) = ewm alpha (take n xs)"
  using ewm_prefix [of "take n xs" alpha "drop n xs"] by simp

lemma ewm_NaN_then_constant:
  assumes "t < length xs" and "t0 \<le> t" and "\<forall>j<t0. xs ! j = NaN"
    and "\<forall>j. t0 \<le> j \<and> j \<le> t \<longrightarrow> xs ! j = Fin c"
  shows "ewm alpha xs ! t = Fin c"
proof -
  have "take (Suc t) xs = replicate t0 NaN @ replicate (Suc t - t0) (Fin c)"
    using assms by (intro nth_equalityI) (auto simp: nth_append)
  then have "take (Suc t) (ewm alpha xs) = replicate t0 NaN @ replicate (Suc t - t0) (Fin c)"
    using assms(1) by (simp add: ewm_take ewm_leading_NaN ewm_constant)
  then have "take (Suc t) (ewm alpha xs) ! t = Fin c"
    using assms(2) by (simp add: nth_append)
  then show ?thesis by simp
qed

subsection \<open>Rolling mean, shift and rate of change\<close>

lemma length_rolling_mean [simp]: "length (rolling_mean w vals) = length vals"
  by (simp add: rolling_mean_def)

lemma rolling_mean_warm_up:
  assumes "t < length vals" and "t + 1 < w"
  shows "rolling_mean w vals ! t = NaN"
proof -
  have "length (filter (\<lambda>v. \<not> isnan v) (roll_window w (prep_values vals) t))
      \<le> length (roll_window w (prep_values vals) t)"
    by (rule length_filter_le)
  also have "\<dots> \<le> t + 1"
    by (simp add: roll_window_def Let_def)
  finally show ?thesis
    using assms by (simp add: rolling_mean_def Let_def)
qed

lemma fsum_replicate: "foldl fadd (Fin a) (replicate j (Fin c)) = Fin (a + real j * c)"
  by (induction j arbitrary: a) (simp_all add: algebra_simps)

lemma roll_window_replicate:
  assumes "t < n" and "w \<le> t + 1"
  shows "roll_window w (replicate n x) t = replicate w x"
  using assms by (auto simp: roll_window_def Let_def min_def)

lemma rolling_mean_constant:
  assumes "t < n" and "1 \<le> w"
  shows "rolling_mean w (replicate n (Fin c)) ! t = (if t + 1 < w then NaN else Fin c)"
proof (cases "t + 1 < w")
  case True
  then show ?thesis using assms rolling_mean_warm_up [of t "replicate n (Fin c)" w] by simp
next
  case False
  then have "roll_window w (replicate n (Fin c)) t = replicate w (Fin c)"
    using assms roll_window_replicate [of t n w "Fin c"] by simp
  then show ?thesis
    using assms False by (simp add: rolling_mean_def Let_def fsum_def fsum_replicate)
qed


lemma length_shift [simp]: "length (shift k vals) = length vals"
  by (auto simp: shift_def Let_def min_def)

lemma shift_nth:
  assumes "0 \<le> k" and "t < length vals"
  shows "shift k vals ! t = (if t < nat k then NaN else vals ! (t - nat k))"
  using assms by (auto simp: shift_def Let_def nth_append)

lemma length_replace_zero_nan [simp]: "length (replace_zero_nan vals) = length vals"
  by (simp add: replace_zero_nan_def)

lemma length_roc_values [simp]: "length (roc_values k vals) = length vals"
  by (simp add: roc_values_def Let_def)

lemma roc_values_nth:
  assumes "t < length vals"
  shows "roc_values k vals ! t =
           fdiv (fsub (vals ! t) (shift k vals ! t))
             (if feq (shift k vals ! t) (Fin 0) then NaN else shift k vals ! t)"
  using assms by (simp add: roc_values_def Let_def replace_zero_nan_def)

lemma rs_ratio_values_nth:
  assumes "1 \<le> m" and "t < length rs"
  shows "\<exists>ema r. ewm_mean m rs = Inr ema \<and> ema = ewm (span_alpha m) (prep_values rs)
           \<and> rs_ratio_values m rs = Inr r \<and> length r = length rs \<and>
           r ! t = fdiv (fmul (Fin 100) (ema ! t))
                     (if feq (rolling_mean (nat m) ema ! t) (Fin 0) then NaN
                      else rolling_mean (nat m) ema ! t)"
  using assms by (simp add: rs_ratio_values_def ewm_mean_def Let_def replace_zero_nan_def)

lemma momentum_values_nth:
  assumes "1 \<le> m" and "t < length vals"
  shows "\<exists>r. momentum_values k m vals = Inr r \<and> length r = length vals \<and>
           r ! t = fadd (Fin 100)
                     (fmul (Fin 100) (ewm (span_alpha m) (prep_values (roc_values k vals)) ! t))"
  using assms by (simp add: momentum_values_def ewm_mean_def)

lemma roc_warm_up:
  assumes "0 \<le> k" and "t < length vals" and "t < w + nat k"
    and "\<forall>j<w. j < length vals \<longrightarrow> vals ! j = NaN"
  shows "roc_values k vals ! t = NaN"
proof -
  have "shift k vals ! t = NaN"
    using assms by (simp add: shift_nth)
  then show ?thesis
    using assms(2) by (simp add: roc_values_nth)
qed

lemma roc_constant_window:
  assumes "0 \<le> k" and "c \<noteq> 0" and "vals = pre @ replicate b (Fin c) @ post"
    and "length pre + nat k \<le> t" and "t < length pre + b"
  shows "roc_values k vals ! t = Fin 0"
proof -
  have t: "t < length vals" using assms(3,5) by simp
  have "vals ! t = Fin c"
    using assms(3-5) by (auto simp: nth_append)
  moreover have "shift k vals ! t = Fin c"
    using assms t by (auto simp: shift_nth nth_append)
  ultimately show ?thesis
    using t assms(2) by (simp add: roc_values_nth fsub_def)
qed

section \<open>Properties of the transform engine\<close>

text \<open>
  With a span of at least 1 the engine returns a series for every input: the ratio
  series on the index of its two equally indexed arguments, the momentum series on the
  index of the ratio series.
\<close>

lemma index_zip [simp]: "length ds = length vs \<Longrightarrow> index (zip ds vs) = ds"
  by (simp add: index_def)

lemma series_values_zip [simp]: "length ds = length vs \<Longrightarrow> series_values (zip ds vs) = vs"
  by (simp add: series_values_def)

lemma length_index [simp]: "length (index ser) = length ser"
  by (simp add: index_def)

lemma length_series_values [simp]: "length (series_values ser) = length ser"
  by (simp add: series_values_def)

lemma rs_ratio_values_returns:
  "1 \<le> m \<Longrightarrow> \<exists>r. rs_ratio_values m rs = Inr r \<and> length r = length rs"
  by (simp add: rs_ratio_values_def ewm_mean_def Let_def)

lemma momentum_values_returns:
  "1 \<le> m \<Longrightarrow> \<exists>r. momentum_values k m vals = Inr r \<and> length r = length vals"
  by (simp add: momentum_values_def ewm_mean_def)

lemma calculate_rs_returns:
  assumes "index stock_df = index benchmark_df" and "1 \<le> ema_roc_span self"
  shows "\<exists>r. rs_ratio_values (ema_roc_span self)
               (map2 fdiv (series_values stock_df) (series_values benchmark_df)) = Inr r
           \<and> length r = length stock_df
           \<and> calculate_rs self stock_df benchmark_df = Inr (zip (index stock_df) r)"
proof -
  have len: "length benchmark_df = length stock_df"
    using assms(1) by (metis length_index)
  obtain r where r: "rs_ratio_values (ema_roc_span self)
               (map2 fdiv (series_values stock_df) (series_values benchmark_df)) = Inr r"
     "length r = length (map2 fdiv (series_values stock_df) (series_values benchmark_df))"
    using rs_ratio_values_returns [OF assms(2)] by blast
  then show ?thesis
    using assms(1) len by (simp add: calculate_rs_def series_truediv_def)
qed

lemma calculate_momentum_returns:
  assumes "1 \<le> ema_roc_span self"
  shows "\<exists>r. momentum_values (roc_shift self) (ema_roc_span self) (series_values rs_ratio) = Inr r
           \<and> length r = length rs_ratio
           \<and> calculate_momentum self rs_ratio = Inr (zip (index rs_ratio) r)"
  using momentum_values_returns [OF assms, of "roc_shift self" "series_values rs_ratio"]
  by (auto simp: calculate_momentum_def)

text \<open>
  Concrete runs of the engine are evaluated by unfolding these definitions.
\<close>

lemmas engine_defs = calculate_rs_def calculate_momentum_def series_truediv_def rs_ratio_values_def
  momentum_values_def roc_values_def ewm_mean_def span_alpha_def rolling_mean_def roll_window_def
  fsum_def shift_def replace_zero_nan_def prep_values_def index_def series_values_def fsub_def
  Let_def

subsection \<open>The moving average\<close>

text \<open>
  C7, as the code has it. For every integer \<open>m \<ge> 1\<close>, the first output of the
  exponential moving average with span \<open>m\<close> is the first input, for every non-empty
  series whose first value is a number or missing. On a series of numbers, also behind
  leading missing values, the leading missing values stay missing, the first number is
  passed through, and each later output is
  \<open>alpha * input[t] + (1 - alpha) * output[t - 1]\<close> with \<open>alpha = 2 / (m + 1)\<close>.
\<close>

theorem ewm_mean_recurrence:
  assumes "1 \<le> m"
  shows "(\<not> isinf v \<longrightarrow> (\<exists>out. ewm_mean m (v # vals) = Inr out \<and> out ! 0 = v))
       \<and> (\<exists>out. ewm_mean m (replicate a NaN @ map Fin xs) = Inr (replicate a NaN @ map Fin out)
             \<and> length out = length xs
             \<and> (0 < length xs \<longrightarrow> out ! 0 = xs ! 0)
             \<and> (\<forall>t. 0 < t \<and> t < length xs \<longrightarrow>
                   out ! t = 2 / (real_of_int m + 1) * xs ! t
                             + (1 - 2 / (real_of_int m + 1)) * out ! (t - 1)))"
proof (intro conjI)
  show "\<not> isinf v \<longrightarrow> (\<exists>out. ewm_mean m (v # vals) = Inr out \<and> out ! 0 = v)"
    using assms by (auto simp: ewm_mean_def prep_values_def Let_def isnan_iff)
next
  let ?alpha = "2 / (real_of_int m + 1)"
  let ?out = "spec_ema ?alpha xs"
  have "ewm_mean m (replicate a NaN @ map Fin xs) = Inr (replicate a NaN @ map Fin ?out)"
    using assms by (simp add: ewm_mean_def span_alpha_eq ewm_leading_NaN ewm_spec)
  moreover have "\<forall>t. 0 < t \<and> t < length xs \<longrightarrow>
      ?out ! t = ?alpha * xs ! t + (1 - ?alpha) * ?out ! (t - 1)"
    using spec_ema_nth [of _ xs ?alpha] by blast
  moreover have "0 < length xs \<longrightarrow> ?out ! 0 = xs ! 0"
    by (cases xs) simp_all
  ultimately show "\<exists>out. ewm_mean m (replicate a NaN @ map Fin xs) = Inr (replicate a NaN @ map Fin out)
             \<and> length out = length xs
             \<and> (0 < length xs \<longrightarrow> out ! 0 = xs ! 0)
             \<and> (\<forall>t. 0 < t \<and> t < length xs \<longrightarrow>
                   out ! t = ?alpha * xs ! t + (1 - ?alpha) * out ! (t - 1))"
    by (intro exI [of _ ?out]) simp
qed

text \<open>
  The claim as stated, for every series, fails in two ways at span 3 (\<open>alpha = 1/2\<close>).
  On the series 4, missing, 2 the output is 4, 4, \<open>8/3\<close>: at the missing value the
  output repeats 4 where the recurrence gives a missing value, and after it the weights
  have changed, so the output is \<open>8/3\<close> where the recurrence gives 3. On the series
  infinity, 1 the first output is missing, not the first input.
\<close>

theorem ewm_mean_missing_inside_counterexample:
  "ewm_mean 3 [Fin 4, NaN, Fin 2] = Inr [Fin 4, Fin 4, Fin (8 / 3)]
   \<and> fadd (fmul (Fin (2 / (3 + 1))) NaN) (fmul (Fin (1 - 2 / (3 + 1))) (Fin 4)) = NaN
   \<and> fadd (fmul (Fin (2 / (3 + 1))) (Fin 2)) (fmul (Fin (1 - 2 / (3 + 1))) (Fin 4)) = Fin 3
   \<and> ewm_mean 3 [Inf True, Fin 1] = Inr [NaN, Fin 1]"
  by (simp add: ewm_mean_def prep_values_def span_alpha_def Let_def)

text \<open>
  The theorem at span 3 on the series 4, 8, 2, alone and behind one missing value.
\<close>

theorem ewm_mean_recurrence_witness:
  "\<not> isinf (Fin 4)
   \<and> (\<exists>out. ewm_mean 3 [Fin 4, Fin 8, Fin 2] = Inr out \<and> out ! 0 = Fin 4)
   \<and> (\<exists>out. ewm_mean 3 (replicate 1 NaN @ map Fin [4, 8, 2]) = Inr (replicate 1 NaN @ map Fin out)
         \<and> length out = length [4, 8, 2 :: real]
         \<and> out ! 0 = [4, 8, 2] ! 0
         \<and> out ! 1 = 2 / (real_of_int 3 + 1) * [4, 8, 2] ! 1 + (1 - 2 / (real_of_int 3 + 1)) * out ! 0
         \<and> out ! 2 = 2 / (real_of_int 3 + 1) * [4, 8, 2] ! 2 + (1 - 2 / (real_of_int 3 + 1)) * out ! 1)
   \<and> ewm_mean 3 [NaN, Fin 4, Fin 8, Fin 2] = Inr [NaN, Fin 4, Fin 6, Fin 4]"
proof -
  have m: "(1::int) \<le> 3" by simp
  have "ewm_mean 3 [NaN, Fin 4, Fin 8, Fin 2] = Inr [NaN, Fin 4, Fin 6, Fin 4]"
    by (simp add: ewm_mean_def prep_values_def span_alpha_def Let_def)
  moreover have "\<exists>out. ewm_mean 3 (replicate 1 NaN @ map Fin [4, 8, 2]) = Inr (replicate 1 NaN @ map Fin out)
         \<and> length out = length [4, 8, 2 :: real]
         \<and> out ! 0 = [4, 8, 2] ! 0
         \<and> out ! 1 = 2 / (real_of_int 3 + 1) * [4, 8, 2] ! 1 + (1 - 2 / (real_of_int 3 + 1)) * out ! 0
         \<and> out ! 2 = 2 / (real_of_int 3 + 1) * [4, 8, 2] ! 2 + (1 - 2 / (real_of_int 3 + 1)) * out ! 1"
  proof -
    obtain out where o: "ewm_mean 3 (replicate 1 NaN @ map Fin [4, 8, 2]) = Inr (replicate 1 NaN @ map Fin out)"
      "length out = length [4, 8, 2 :: real]"
      "0 < length [4, 8, 2 :: real] \<longrightarrow> out ! 0 = [4, 8, 2] ! 0"
      "\<forall>t. 0 < t \<and> t < length [4, 8, 2 :: real] \<longrightarrow>
                   out ! t = 2 / (real_of_int 3 + 1) * [4, 8, 2] ! t
                             + (1 - 2 / (real_of_int 3 + 1)) * out ! (t - 1)"
      using ewm_mean_recurrence [OF m, of "Fin 4" "[Fin 8, Fin 2]" 1 "[4, 8, 2]"] by blast
    have "out ! 1 = 2 / (real_of_int 3 + 1) * [4, 8, 2] ! 1 + (1 - 2 / (real_of_int 3 + 1)) * out ! 0"
      using o(4) [rule_format, of 1] by simp
    moreover have "out ! 2 = 2 / (real_of_int 3 + 1) * [4, 8, 2] ! 2 + (1 - 2 / (real_of_int 3 + 1)) * out ! 1"
      using o(4) [rule_format, of 2] by simp
    moreover have "out ! 0 = [4, 8, 2] ! 0"
      using o(3) by simp
    ultimately show ?thesis using o(1,2) by blast
  qed
  moreover have "\<exists>out. ewm_mean 3 [Fin 4, Fin 8, Fin 2] = Inr out \<and> out ! 0 = Fin 4"
    using ewm_mean_recurrence [OF m, of "Fin 4" "[Fin 8, Fin 2]" 0 "[]"] by simp
  ultimately show ?thesis by simp
qed

subsection \<open>Warm-up positions\<close>

lemma ratio_warm_up:
  assumes "1 \<le> m" and "t < length rs" and "int t < m - 1" and "rs_ratio_values m rs = Inr r"
  shows "r ! t = NaN"
proof -
  have "rolling_mean (nat m) (ewm (span_alpha m) (prep_values rs)) ! t = NaN"
    using assms(1-3) by (intro rolling_mean_warm_up) simp_all
  then show ?thesis
    using rs_ratio_values_nth [OF assms(1,2)] assms(4) by auto
qed

lemma momentum_warm_up:
  assumes "0 \<le> k" and "1 \<le> m" and "t < length vals" and "t < w + nat k"
    and "\<forall>j<w. j < length vals \<longrightarrow> vals ! j = NaN"
    and "momentum_values k m vals = Inr mom"
  shows "mom ! t = NaN"
proof -
  have "\<forall>j\<le>t. isnan (prep_values (roc_values k vals) ! j)"
    using roc_warm_up [OF assms(1) _ _ assms(5)] assms(3,4) by (simp add: prep_values_nth)
  then have "ewm (span_alpha m) (prep_values (roc_values k vals)) ! t = NaN"
    using assms(3) by (intro ewm_all_NaN) simp_all
  then show ?thesis
    using momentum_values_nth [OF assms(2,3), of k] assms(6) by auto
qed

text \<open>
  C9, as the code has it. The ratio series and the momentum series keep the whole index
  of the input: for equally indexed price series, \<open>m \<ge> 1\<close> and \<open>k \<ge> 0\<close>, both results
  carry exactly the input's index, and the leading warm-up positions are present with
  the missing value NaN: the first \<open>m - 1\<close> positions of the ratio series and the first
  \<open>m - 1 + k\<close> positions of the momentum series.
\<close>

theorem warm_up_positions_present:
  assumes "index stock_df = index benchmark_df"
    and "1 \<le> ema_roc_span self" and "0 \<le> roc_shift self"
  shows "\<exists>rs mom. calculate_rs self stock_df benchmark_df = Inr rs
           \<and> calculate_momentum self rs = Inr mom
           \<and> index rs = index stock_df \<and> index mom = index stock_df
           \<and> (\<forall>t. t < length stock_df \<and> int t < ema_roc_span self - 1 \<longrightarrow>
                 series_values rs ! t = NaN)
           \<and> (\<forall>t. t < length stock_df \<and> int t < ema_roc_span self - 1 + roc_shift self \<longrightarrow>
                 series_values mom ! t = NaN)"
proof -
  let ?m = "ema_roc_span self" and ?k = "roc_shift self"
  obtain r where r: "rs_ratio_values ?m
        (map2 fdiv (series_values stock_df) (series_values benchmark_df)) = Inr r"
      "length r = length stock_df"
      "calculate_rs self stock_df benchmark_df = Inr (zip (index stock_df) r)"
    using calculate_rs_returns [OF assms(1,2)] by blast
  let ?rs = "zip (index stock_df) r"
  have vr: "series_values ?rs = r" and ir: "index ?rs = index stock_df"
    using r(2) by simp_all
  obtain q where q: "momentum_values ?k ?m (series_values ?rs) = Inr q"
      "length q = length ?rs"
      "calculate_momentum self ?rs = Inr (zip (index ?rs) q)"
    using calculate_momentum_returns [OF assms(2), of ?rs] by blast
  let ?mom = "zip (index ?rs) q"
  have vq: "series_values ?mom = q" and iq: "index ?mom = index stock_df"
    using q(2) r(2) by simp_all
  have len: "length (map2 fdiv (series_values stock_df) (series_values benchmark_df))
      = length stock_df"
    using assms(1) by (metis length_index length_map length_series_values length_zip min.idem)
  have a: "r ! t = NaN" if "t < length stock_df" "int t < ?m - 1" for t
    using ratio_warm_up [OF assms(2) _ that(2) r(1)] that(1) len by simp
  have b: "q ! t = NaN" if "t < length stock_df" "int t < ?m - 1 + ?k" for t
  proof -
    have "t < nat (?m - 1) + nat ?k"
      using that(2) assms(2,3) by linarith
    moreover have "\<forall>j<nat (?m - 1). j < length r \<longrightarrow> r ! j = NaN"
      using a r(2) by simp
    ultimately show ?thesis
      using momentum_warm_up [OF assms(3,2), of t r "nat (?m - 1)" q] q(1) that(1) r(2) vr
      by simp
  qed
  show ?thesis
    using r(3) q(3) ir iq a b vr vq by (intro exI [of _ ?rs] exI [of _ ?mom]) simp
qed

text \<open>
  The claim as stated, that the warm-up positions are absent from the output's index,
  fails on three prices with \<open>m = 2\<close>, \<open>k = 1\<close>: the results have three rows, the
  first (and for the momentum the second) holding NaN.
\<close>

theorem warm_up_present_counterexample:
  "calculate_rs \<lparr>window = 14, period = 52, ema_span = 14, roc_shift = 1, ema_roc_span = 2\<rparr>
     [(0::nat, Fin 2), (1, Fin 2), (2, Fin 2)] [(0, Fin 1), (1, Fin 1), (2, Fin 1)]
   = Inr [(0, NaN), (1, Fin 100), (2, Fin 100)]
   \<and> calculate_momentum \<lparr>window = 14, period = 52, ema_span = 14, roc_shift = 1, ema_roc_span = 2\<rparr>
        [(0::nat, NaN), (1, Fin 100), (2, Fin 100)]
      = Inr [(0, NaN), (1, NaN), (2, Fin 100)]"
  by (simp add: engine_defs upt_rec)

theorem warm_up_positions_present_witness:
  "index [(0::nat, Fin 2), (1, Fin 2), (2, Fin 2)] = index [(0::nat, Fin 1), (1, Fin 1), (2, Fin 1)]
   \<and> 1 \<le> ema_roc_span \<lparr>window = 14, period = 52, ema_span = 14, roc_shift = 1, ema_roc_span = 2\<rparr>
   \<and> 0 \<le> roc_shift \<lparr>window = 14, period = 52, ema_span = 14, roc_shift = 1, ema_roc_span = 2\<rparr>
   \<and> (\<exists>rs mom. calculate_rs \<lparr>window = 14, period = 52, ema_span = 14, roc_shift = 1, ema_roc_span = 2\<rparr>
          [(0::nat, Fin 2), (1, Fin 2), (2, Fin 2)] [(0::nat, Fin 1), (1, Fin 1), (2, Fin 1)] = Inr rs
        \<and> calculate_momentum \<lparr>window = 14, period = 52, ema_span = 14, roc_shift = 1, ema_roc_span = 2\<rparr> rs = Inr mom
        \<and> index rs = [0, 1, 2] \<and> index mom = [0, 1, 2]
        \<and> series_values rs ! 0 = NaN \<and> series_values mom ! 0 = NaN \<and> series_values mom ! 1 = NaN)"
proof -
  let ?c = "\<lparr>window = 14, period = 52, ema_span = 14, roc_shift = 1, ema_roc_span = 2\<rparr>"
  let ?s = "[(0::nat, Fin 2), (1, Fin 2), (2, Fin 2)]" and ?b = "[(0::nat, Fin 1), (1, Fin 1), (2, Fin 1)]"
  have h1: "index ?s = index ?b" by (simp add: index_def)
  have h2: "1 \<le> ema_roc_span ?c" and h3: "0 \<le> roc_shift ?c" by simp_all
  obtain rs mom where "calculate_rs ?c ?s ?b = Inr rs" "calculate_momentum ?c rs = Inr mom"
    "index rs = index ?s" "index mom = index ?s"
    "\<forall>t. t < length ?s \<and> int t < ema_roc_span ?c - 1 \<longrightarrow> series_values rs ! t = NaN"
    "\<forall>t. t < length ?s \<and> int t < ema_roc_span ?c - 1 + roc_shift ?c \<longrightarrow> series_values mom ! t = NaN"
    using warm_up_positions_present [OF h1 h2 h3] by blast
  then have "calculate_rs ?c ?s ?b = Inr rs \<and> calculate_momentum ?c rs = Inr mom
        \<and> index rs = [0, 1, 2] \<and> index mom = [0, 1, 2]
        \<and> series_values rs ! 0 = NaN \<and> series_values mom ! 0 = NaN \<and> series_values mom ! 1 = NaN"
    by (simp add: index_def)
  then show ?thesis
    using h1 h2 h3 by blast
qed

subsection \<open>Zero divisors\<close>




subsection \<open>Constant ratio\<close>

lemma momentum_values_constant_window:
  assumes "0 \<le> k" and "1 \<le> m" and "c \<noteq> 0"
    and "vals = replicate a NaN @ replicate b (Fin c) @ post"
    and "a + nat k \<le> t" and "t < a + b"
    and "momentum_values k m vals = Inr mom"
  shows "mom ! t = Fin 100"
proof -
  have t: "t < length vals" using assms(4,6) by simp
  have nan: "\<forall>j<a + nat k. roc_values k vals ! j = NaN"
  proof (intro allI impI)
    fix j assume j: "j < a + nat k"
    show "roc_values k vals ! j = NaN"
    proof (cases "j < length vals")
      case True
      then show ?thesis
        using roc_warm_up [OF assms(1) True j] assms(4) by (simp add: nth_append)
    next
      case False
      then show ?thesis using assms(5) t j by simp
    qed
  qed
  have zero: "\<forall>j. a + nat k \<le> j \<and> j \<le> t \<longrightarrow> roc_values k vals ! j = Fin 0"
    using roc_constant_window [OF assms(1,3), of vals "replicate a NaN" b post] assms(4,6)
    by simp
  have "ewm (span_alpha m) (prep_values (roc_values k vals)) ! t = Fin 0"
    using t assms(5) nan zero
    by (intro ewm_NaN_then_constant [of _ _ "a + nat k"]) (simp_all add: prep_values_nth)
  then show ?thesis
    using momentum_values_nth [OF assms(2) t, of k] assms(7) by auto
qed

text \<open>
  C8, as the code has it. Where the ratio series is a constant number other than 0 over
  a contiguous window, the rate of change is exactly 0 at every position of the window
  that lies at least \<open>k\<close> positions after its start; if in addition every entry before
  the window is missing, the momentum is exactly 100 at those positions.
\<close>

theorem momentum_constant_window:
  assumes "0 \<le> roc_shift self" and "1 \<le> ema_roc_span self" and "c \<noteq> 0"
    and "series_values rs_ratio = pre @ replicate b (Fin c) @ post"
  shows "\<exists>mom. calculate_momentum self rs_ratio = Inr mom \<and> index mom = index rs_ratio
           \<and> (\<forall>t. length pre + nat (roc_shift self) \<le> t \<and> t < length pre + b \<longrightarrow>
                 roc_values (roc_shift self) (series_values rs_ratio) ! t = Fin 0)
           \<and> (list_all isnan pre \<longrightarrow>
                (\<forall>t. length pre + nat (roc_shift self) \<le> t \<and> t < length pre + b \<longrightarrow>
                   series_values mom ! t = Fin 100))"
proof -
  let ?m = "ema_roc_span self" and ?k = "roc_shift self"
  obtain q where q: "momentum_values ?k ?m (series_values rs_ratio) = Inr q"
      "length q = length rs_ratio"
      "calculate_momentum self rs_ratio = Inr (zip (index rs_ratio) q)"
    using calculate_momentum_returns [OF assms(2), of rs_ratio] by blast
  have roc: "roc_values ?k (series_values rs_ratio) ! t = Fin 0"
    if "length pre + nat ?k \<le> t" "t < length pre + b" for t
    using roc_constant_window [OF assms(1,3,4) that] .
  have mom: "q ! t = Fin 100"
    if "list_all isnan pre" "length pre + nat ?k \<le> t" "t < length pre + b" for t
  proof -
    have "pre = replicate (length pre) NaN"
      using that(1) by (intro nth_equalityI) (auto simp: list_all_length isnan_iff)
    then have "series_values rs_ratio = replicate (length pre) NaN @ replicate b (Fin c) @ post"
      using assms(4) by simp
    then show ?thesis
      using momentum_values_constant_window [OF assms(1,2,3) _ that(2,3) q(1)] by simp
  qed
  show ?thesis
    using q(2,3) roc mom by (intro exI [of _ "zip (index rs_ratio) q"]) simp
qed

text \<open>
  The claim as stated fails on the ratio series 1, 2, 2, 2 with \<open>k = 1\<close>, \<open>m = 2\<close>: the
  ratio is constant over positions 1 to 3, and the momentum there is 200, \<open>400/3\<close> and
  \<open>1000/9\<close>, since the moving average remembers the change at position 1.
\<close>

theorem momentum_after_change_counterexample:
  "calculate_momentum \<lparr>window = 14, period = 52, ema_span = 14, roc_shift = 1, ema_roc_span = 2\<rparr>
     [(0::nat, Fin 1), (1, Fin 2), (2, Fin 2), (3, Fin 2)]
   = Inr [(0, NaN), (1, Fin 200), (2, Fin (400 / 3)), (3, Fin (1000 / 9))]"
  by (simp add: engine_defs upt_rec)

theorem momentum_constant_window_witness:
  "0 \<le> roc_shift \<lparr>window = 14, period = 52, ema_span = 14, roc_shift = 1, ema_roc_span = 2\<rparr>
   \<and> 1 \<le> ema_roc_span \<lparr>window = 14, period = 52, ema_span = 14, roc_shift = 1, ema_roc_span = 2\<rparr>
   \<and> (100::real) \<noteq> 0
   \<and> series_values [(0::nat, NaN), (1, Fin 100), (2, Fin 100), (3, Fin 100), (4, Fin 120)]
       = [NaN] @ replicate 3 (Fin 100) @ [Fin 120]
   \<and> list_all isnan [NaN]
   \<and> calculate_momentum \<lparr>window = 14, period = 52, ema_span = 14, roc_shift = 1, ema_roc_span = 2\<rparr>
        [(0::nat, NaN), (1, Fin 100), (2, Fin 100), (3, Fin 100), (4, Fin 120)]
      = Inr [(0, NaN), (1, NaN), (2, Fin 100), (3, Fin 100), (4, Fin (340 / 3))]
   \<and> (\<exists>mom. calculate_momentum \<lparr>window = 14, period = 52, ema_span = 14, roc_shift = 1, ema_roc_span = 2\<rparr>
          [(0::nat, NaN), (1, Fin 100), (2, Fin 100), (3, Fin 100), (4, Fin 120)] = Inr mom
        \<and> series_values mom ! 2 = Fin 100 \<and> series_values mom ! 3 = Fin 100)"
proof -
  let ?c = "\<lparr>window = 14, period = 52, ema_span = 14, roc_shift = 1, ema_roc_span = 2\<rparr>"
  let ?r = "[(0::nat, NaN), (1, Fin 100), (2, Fin 100), (3, Fin 100), (4, Fin 120)]"
  have h1: "0 \<le> roc_shift ?c" and h2: "1 \<le> ema_roc_span ?c" and h3: "(100::real) \<noteq> 0"
    by simp_all
  have h4: "series_values ?r = [NaN] @ replicate 3 (Fin 100) @ [Fin 120]"
    by (simp add: series_values_def numeral_3_eq_3)
  have h5: "list_all isnan [NaN]" by simp
  have ev: "calculate_momentum ?c ?r = Inr [(0, NaN), (1, NaN), (2, Fin 100), (3, Fin 100), (4, Fin (340 / 3))]"
    by (simp add: engine_defs upt_rec)
  obtain mom where "calculate_momentum ?c ?r = Inr mom"
    "list_all isnan [NaN] \<longrightarrow>
       (\<forall>t. length [NaN :: pyfloat] + nat (roc_shift ?c) \<le> t \<and> t < length [NaN :: pyfloat] + 3 \<longrightarrow>
          series_values mom ! t = Fin 100)"
    using momentum_constant_window [OF h1 h2 h3 h4] by blast
  then have "calculate_momentum ?c ?r = Inr mom
      \<and> series_values mom ! 2 = Fin 100 \<and> series_values mom ! 3 = Fin 100"
    by simp
  then show ?thesis
    using h1 h2 h3 h4 h5 ev by blast
qed

lemma constant_ratio_values:
  assumes "1 \<le> m" and "c \<noteq> 0" and "rs_ratio_values m (replicate n (Fin c)) = Inr r"
  shows "r = replicate (min (nat (m - 1)) n) NaN @ replicate (n - nat (m - 1)) (Fin 100)"
proof (intro nth_equalityI)
  have len: "length r = n"
    using rs_ratio_values_returns [OF assms(1), of "replicate n (Fin c)"] assms(3) by simp
  then show "length r = length (replicate (min (nat (m - 1)) n) NaN @ replicate (n - nat (m - 1)) (Fin 100))"
    by simp
  fix t assume "t < length r"
  then have t: "t < n" using len by simp
  have w: "1 \<le> nat m" using assms(1) by simp
  have "r ! t = fdiv (Fin (100 * c)) (if feq (if t + 1 < nat m then NaN else Fin c) (Fin 0) then NaN
                      else (if t + 1 < nat m then NaN else Fin c))"
    using rs_ratio_values_nth [OF assms(1), of t "replicate n (Fin c)"] assms(3) t
      rolling_mean_constant [OF t w, of c]
    by (simp add: ewm_constant)
  also have "\<dots> = (if t + 1 < nat m then NaN else Fin 100)"
    using assms(2) by simp
  also have "\<dots> = (replicate (min (nat (m - 1)) n) NaN @ replicate (n - nat (m - 1)) (Fin 100)) ! t"
    using t assms(1) by (auto simp: nth_append)
  finally show "r ! t = (replicate (min (nat (m - 1)) n) NaN @ replicate (n - nat (m - 1)) (Fin 100)) ! t" .
qed

text \<open>
  C2. For instrument prices 10 and benchmark prices 5 at 50 common dates, with
  \<open>m = 14\<close> and \<open>k = 10\<close>, \<open>calculate_rs\<close> returns a ratio series that is exactly 100 at
  every position from 26 on, and \<open>calculate_momentum\<close> applied to it returns a momentum
  series that is exactly 100 at every position from 36 on.
\<close>

theorem constant_prices_scenario:
  assumes "length dates = 50" and "ema_roc_span self = 14" and "roc_shift self = 10"
  shows "\<exists>rs mom. calculate_rs self (zip dates (replicate 50 (Fin 10)))
                      (zip dates (replicate 50 (Fin 5))) = Inr rs
           \<and> calculate_momentum self rs = Inr mom
           \<and> index rs = dates \<and> index mom = dates
           \<and> (\<forall>t. 26 \<le> t \<and> t < 50 \<longrightarrow> series_values rs ! t = Fin 100)
           \<and> (\<forall>t. 36 \<le> t \<and> t < 50 \<longrightarrow> series_values mom ! t = Fin 100)"
proof -
  let ?stock = "zip dates (replicate 50 (Fin 10))" and ?bench = "zip dates (replicate 50 (Fin 5))"
  have m: "1 \<le> ema_roc_span self" and k: "0 \<le> roc_shift self"
    using assms(2,3) by simp_all
  have idx: "index ?stock = index ?bench"
    using assms(1) by simp
  have raw: "map2 fdiv (series_values ?stock) (series_values ?bench) = replicate 50 (Fin 2)"
    using assms(1) by simp
  obtain r where r: "rs_ratio_values 14 (replicate 50 (Fin 2)) = Inr r" "length r = 50"
      "calculate_rs self ?stock ?bench = Inr (zip dates r)"
    using calculate_rs_returns [OF idx m] assms(1,2) raw by auto
  have r_eq: "r = replicate 13 NaN @ replicate 37 (Fin 100) @ []"
    using constant_ratio_values [OF _ _ r(1)] by simp
  let ?rs = "zip dates r"
  have vr: "series_values ?rs = r" and ir: "index ?rs = dates"
    using r(2) assms(1) by simp_all
  obtain q where q: "momentum_values 10 14 r = Inr q" "length q = 50"
      "calculate_momentum self ?rs = Inr (zip dates q)"
    using calculate_momentum_returns [OF m, of ?rs] assms vr ir r(2) by auto
  have a: "r ! t = Fin 100" if "26 \<le> t" "t < 50" for t
    using that by (simp add: r_eq nth_append)
  have b: "q ! t = Fin 100" if "36 \<le> t" "t < 50" for t
    using momentum_values_constant_window [of 10 14 100 r 13 37 "[]" t q] r_eq q(1) that
    by simp
  show ?thesis
    using r(3) q(3) a b q(2) r(2) assms(1)
    by (intro exI [of _ ?rs] exI [of _ "zip dates q"] conjI) simp_all
qed

theorem constant_prices_scenario_witness:
  "length [0..<50] = 50
   \<and> (\<exists>rs mom. calculate_rs \<lparr>window = 14, period = 52, ema_span = 14, roc_shift = 10, ema_roc_span = 14\<rparr>
          (zip [0..<50] (replicate 50 (Fin 10))) (zip [0..<50] (replicate 50 (Fin 5))) = Inr rs
        \<and> calculate_momentum \<lparr>window = 14, period = 52, ema_span = 14, roc_shift = 10, ema_roc_span = 14\<rparr> rs = Inr mom
        \<and> index rs = [0..<50] \<and> index mom = [0..<50]
        \<and> series_values rs ! 26 = Fin 100 \<and> series_values rs ! 49 = Fin 100
        \<and> series_values mom ! 36 = Fin 100 \<and> series_values mom ! 49 = Fin 100)"
proof -
  let ?c = "\<lparr>window = 14, period = 52, ema_span = 14, roc_shift = 10, ema_roc_span = 14\<rparr>"
  have len: "length [0..<50] = 50" by simp
  obtain rs mom where
    "calculate_rs ?c (zip [0..<50] (replicate 50 (Fin 10))) (zip [0..<50] (replicate 50 (Fin 5))) = Inr rs"
    "calculate_momentum ?c rs = Inr mom" "index rs = [0..<50]" "index mom = [0..<50]"
    "\<forall>t. 26 \<le> t \<and> t < 50 \<longrightarrow> series_values rs ! t = Fin 100"
    "\<forall>t. 36 \<le> t \<and> t < 50 \<longrightarrow> series_values mom ! t = Fin 100"
    using constant_prices_scenario [OF len, of ?c] by auto
  then show ?thesis
    using len by (intro conjI exI [of _ rs] exI [of _ mom]) simp_all
qed

section \<open>Properties of the orchestration step\<close>

lemma filter_label_unique:
  assumes "distinct (index ser)" and "d \<in> set (index ser)"
  shows "\<exists>v. filter (\<lambda>row. fst row = d) ser = [(d, v)]"
  using assms
proof (induction ser)
  case Nil
  then show ?case by (simp add: index_def)
next
  case (Cons r ser)
  show ?case
  proof (cases "fst r = d")
    case True
    then have "d \<notin> fst ` set ser"
      using Cons.prems(1) by (auto simp: index_def)
    then have "filter (\<lambda>row. fst row = d) ser = []"
      by (auto simp: filter_empty_conv)
    then show ?thesis
      using True by (cases r) auto
  next
    case False
    then show ?thesis
      using Cons by (auto simp: index_def)
  qed
qed

lemma loc_unique:
  assumes "distinct (index ser)" and "set ds \<subseteq> set (index ser)"
  shows "\<exists>al. loc ser ds = Inr al \<and> index al = ds"
  using assms(2)
proof (induction ds)
  case Nil
  show ?case by (simp add: index_def)
next
  case (Cons d ds)
  obtain v where v: "filter (\<lambda>row. fst row = d) ser = [(d, v)]"
    using filter_label_unique [OF assms(1), of d] Cons.prems by auto
  obtain al where al: "loc ser ds = Inr al" "index al = ds"
    using Cons by auto
  show ?case
    using v al by (simp add: index_def)
qed

lemma process_series_distinct: "distinct (index (process_series ser))"
  using process_series_sorted [of ser] by (simp add: strict_sorted_iff)

lemma generate_chart_item_eq:
  fixes item_close benchmark_closes :: "('d::linorder) series"
  defines "common \<equiv> intersection (index (process_series item_close))
                       (index (process_series benchmark_closes))"
  shows "\<exists>ia ib. loc (process_series item_close) common = Inr ia
           \<and> loc (process_series benchmark_closes) common = Inr ib
           \<and> index ia = common \<and> index ib = common
           \<and> generate_chart_item st item_close benchmark_closes =
               (if int (length common) < session_get st ''window'' 14 + session_get st ''roc_period'' 20
                then Insufficient_history
                else try_calculate (make_calculator st) ia ib)"
proof -
  have "set common \<subseteq> set (index (process_series item_close))"
    and "set common \<subseteq> set (index (process_series benchmark_closes))"
    by (auto simp: common_def intersection_def)
  then obtain ia ib where
    "loc (process_series item_close) common = Inr ia" "index ia = common"
    "loc (process_series benchmark_closes) common = Inr ib" "index ib = common"
    using loc_unique [OF process_series_distinct] by metis
  then show ?thesis
    by (intro exI [of _ ia] exI [of _ ib]) (simp add: generate_chart_item_def Let_def common_def)
qed

lemma try_calculate_invoked: "try_calculate calc a b \<noteq> Insufficient_history"
  by (auto simp: try_calculate_def split: sum.splits failure.splits)

lemma try_calculate_stored:
  assumes "index a = index b" and "1 \<le> ema_roc_span calc" and "a \<noteq> []"
  shows "\<exists>rs mom. calculate_rs calc a b = Inr rs \<and> calculate_momentum calc rs = Inr mom
           \<and> try_calculate calc a b = Stored rs mom"
proof -
  obtain r where r: "length r = length a" "calculate_rs calc a b = Inr (zip (index a) r)"
    using calculate_rs_returns [OF assms(1,2)] by blast
  obtain q where q: "length q = length (zip (index a) r)"
      "calculate_momentum calc (zip (index a) r) = Inr (zip (index (zip (index a) r)) q)"
    using calculate_momentum_returns [OF assms(2), of "zip (index a) r"] by blast
  show ?thesis
    using r q assms(3) by (simp add: try_calculate_def)
qed

lemma common_dates_upt:
  "intersection (index (process_series (zip [0..<n] (replicate n x))))
     (index (process_series (zip [0..<n] (replicate n y)))) = [0..<n]"
  by (simp add: process_series_normal intersection_def)

text \<open>
  C4, as the code has it. The length check reads the settings \<open>window\<close> and
  \<open>roc_period\<close> of the session. When these equal \<open>m\<close> and \<open>k\<close>, an instrument with
  fewer than \<open>m + k\<close> dates in common with the benchmark is skipped before the engine
  is called, and an instrument with at least \<open>m + k\<close> common dates is aligned on them
  and handed to \<open>calculate_rs\<close> and \<open>calculate_momentum\<close>, whose results are stored
  when \<open>m \<ge> 1\<close> and there is a common date.
\<close>

theorem history_gate:
  fixes item_close benchmark_closes :: "('d::linorder) series"
  assumes "session_get st ''window'' 14 = ema_roc_span (make_calculator st)"
    and "session_get st ''roc_period'' 20 = roc_shift (make_calculator st)"
  shows "let calc = make_calculator st;
             common = intersection (index (process_series item_close))
                        (index (process_series benchmark_closes))
         in (int (length common) < ema_roc_span calc + roc_shift calc \<longrightarrow>
               generate_chart_item st item_close benchmark_closes = Insufficient_history)
          \<and> (ema_roc_span calc + roc_shift calc \<le> int (length common) \<longrightarrow>
               (\<exists>ia ib. loc (process_series item_close) common = Inr ia
                  \<and> loc (process_series benchmark_closes) common = Inr ib
                  \<and> index ia = common \<and> index ib = common
                  \<and> generate_chart_item st item_close benchmark_closes = try_calculate calc ia ib
                  \<and> generate_chart_item st item_close benchmark_closes \<noteq> Insufficient_history
                  \<and> (1 \<le> ema_roc_span calc \<and> common \<noteq> [] \<longrightarrow>
                       (\<exists>rs mom. calculate_rs calc ia ib = Inr rs
                          \<and> calculate_momentum calc rs = Inr mom
                          \<and> generate_chart_item st item_close benchmark_closes = Stored rs mom))))"
proof -
  let ?calc = "make_calculator st"
  let ?common = "intersection (index (process_series item_close))
                   (index (process_series benchmark_closes))"
  let ?out = "generate_chart_item st item_close benchmark_closes"
  obtain ia ib where al: "loc (process_series item_close) ?common = Inr ia"
      "loc (process_series benchmark_closes) ?common = Inr ib"
      "index ia = ?common" "index ib = ?common"
    and out: "?out = (if int (length ?common) < ema_roc_span ?calc + roc_shift ?calc
                      then Insufficient_history else try_calculate ?calc ia ib)"
    using generate_chart_item_eq [of item_close benchmark_closes st] assms by auto
  have skip: "?out = Insufficient_history"
    if "int (length ?common) < ema_roc_span ?calc + roc_shift ?calc"
    using out that by simp
  have pass: "?out = try_calculate ?calc ia ib" "?out \<noteq> Insufficient_history"
    if "ema_roc_span ?calc + roc_shift ?calc \<le> int (length ?common)"
    using out that by (simp_all add: try_calculate_invoked)
  have stored: "\<exists>rs mom. calculate_rs ?calc ia ib = Inr rs
      \<and> calculate_momentum ?calc rs = Inr mom \<and> ?out = Stored rs mom"
    if "ema_roc_span ?calc + roc_shift ?calc \<le> int (length ?common)"
      "1 \<le> ema_roc_span ?calc" "?common \<noteq> []"
  proof -
    have "ia \<noteq> []" using al(3) that(3) by (auto simp: index_def)
    then show ?thesis
      using try_calculate_stored [of ia ib ?calc] al(3,4) that(2) pass(1) [OF that(1)] by simp
  qed
  show ?thesis
    unfolding Let_def using skip pass stored al by blast
qed

text \<open>
  The claim as stated fails in both directions. With \<open>m = k = 5\<close> and the other
  settings at their defaults, 11 common dates exceed \<open>m + k\<close>, yet the instrument is
  skipped (the check compares with \<open>14 + 20\<close>). With \<open>m = 14\<close>, \<open>k = 20\<close>, 34 common dates
  do not exceed \<open>m + k\<close>, yet the engine is called.
\<close>

theorem history_gate_counterexample:
  "generate_chart_item [''ema_roc_span'' \<mapsto> 5, ''roc_shift'' \<mapsto> 5]
     (zip [0..<11] (replicate 11 (Fin 10))) (zip [0..<11] (replicate 11 (Fin 5)))
   = Insufficient_history
   \<and> generate_chart_item [''roc_shift'' \<mapsto> 20]
       (zip [0..<34] (replicate 34 (Fin 10))) (zip [0..<34] (replicate 34 (Fin 5)))
     \<noteq> Insufficient_history"
proof
  show "generate_chart_item [''ema_roc_span'' \<mapsto> 5, ''roc_shift'' \<mapsto> 5]
     (zip [0..<11] (replicate 11 (Fin 10))) (zip [0..<11] (replicate 11 (Fin 5)))
   = Insufficient_history"
    by (simp add: generate_chart_item_def Let_def common_dates_upt session_get_def)
next
  show "generate_chart_item [''roc_shift'' \<mapsto> 20]
       (zip [0..<34] (replicate 34 (Fin 10))) (zip [0..<34] (replicate 34 (Fin 5)))
     \<noteq> Insufficient_history"
  proof -
    obtain ia ib where "generate_chart_item [''roc_shift'' \<mapsto> 20]
        (zip [0..<34] (replicate 34 (Fin 10))) (zip [0..<34] (replicate 34 (Fin 5)))
      = try_calculate (make_calculator [''roc_shift'' \<mapsto> 20]) ia ib"
      using generate_chart_item_eq [of "zip [0..<34] (replicate 34 (Fin 10))"
          "zip [0..<34] (replicate 34 (Fin 5))" "[''roc_shift'' \<mapsto> 20]"]
      by (auto simp: common_dates_upt session_get_def)
    then show ?thesis
      by (simp add: try_calculate_invoked)
  qed
qed

theorem history_gate_witness:
  "session_get [''roc_shift'' \<mapsto> 20] ''window'' 14 = ema_roc_span (make_calculator [''roc_shift'' \<mapsto> 20])
   \<and> session_get [''roc_shift'' \<mapsto> 20] ''roc_period'' 20 = roc_shift (make_calculator [''roc_shift'' \<mapsto> 20])
   \<and> generate_chart_item [''roc_shift'' \<mapsto> 20]
        (zip [0..<33] (replicate 33 (Fin 10))) (zip [0..<33] (replicate 33 (Fin 5)))
      = Insufficient_history
   \<and> generate_chart_item [''roc_shift'' \<mapsto> 20]
        (zip [0..<34] (replicate 34 (Fin 10))) (zip [0..<34] (replicate 34 (Fin 5)))
      \<noteq> Insufficient_history"
proof -
  let ?st = "[''roc_shift'' \<mapsto> (20::int)]"
  have h1: "session_get ?st ''window'' 14 = ema_roc_span (make_calculator ?st)"
    by (simp add: session_get_def make_calculator_def)
  have h2: "session_get ?st ''roc_period'' 20 = roc_shift (make_calculator ?st)"
    by (simp add: session_get_def make_calculator_def)
  have mk: "ema_roc_span (make_calculator ?st) + roc_shift (make_calculator ?st) = 34"
    by (simp add: session_get_def make_calculator_def)
  have a: "generate_chart_item ?st (zip [0..<33] (replicate 33 (Fin 10)))
      (zip [0..<33] (replicate 33 (Fin 5))) = Insufficient_history"
    using history_gate [OF h1 h2, of "zip [0..<33] (replicate 33 (Fin 10))"
        "zip [0..<33] (replicate 33 (Fin 5))"]
    by (simp add: Let_def common_dates_upt mk)
  have b: "generate_chart_item ?st (zip [0..<34] (replicate 34 (Fin 10)))
      (zip [0..<34] (replicate 34 (Fin 5))) \<noteq> Insufficient_history"
    using history_gate [OF h1 h2, of "zip [0..<34] (replicate 34 (Fin 10))"
        "zip [0..<34] (replicate 34 (Fin 5))"]
    by (auto simp: Let_def common_dates_upt mk)
  show ?thesis using h1 h2 a b by blast
qed

end
